theory Spec2Isabelle
  imports Complex_Main
begin

section \<open>The health scorer of \<^verbatim>\<open>frontend/components/HealthSummary.tsx\<close>\<close>

subsection \<open>Data\<close>

text \<open>
  The component keeps two pieces of state: \<^verbatim>\<open>summary\<close> (initially \<^verbatim>\<open>{}\<close>, then the JSON
  body of \<^verbatim>\<open>/wearable/data/summary\<close>) and \<^verbatim>\<open>recentReports\<close> (initially \<^verbatim>\<open>[]\<close>, then the
  first three elements of the JSON body of \<^verbatim>\<open>/reports/reports\<close>).

  A \<^verbatim>\<open>latest\<close> reading is a JSON number, \<^verbatim>\<open>null\<close>, or not there at all (\<^verbatim>\<open>undefined\<close>).
  A JSON number is a finite double; the scorer only compares it with the integer constants
  0, 7, 60, 100 and 8000, and such comparisons are exact, so the reading is modelled as
  a real number.
\<close>

datatype jsval = Undefined | Null | Num real

text \<open>A metric group as declared in \<^verbatim>\<open>WearableData.tsx\<close>: \<^verbatim>\<open>{latest, average}\<close>.\<close>

record metric =
  latest :: jsval
  average :: jsval

text \<open>
  The summary object. A property that is missing (or \<^verbatim>\<open>null\<close>) is \<open>None\<close>;
  the empty object \<^verbatim>\<open>{}\<close> has all three missing.
\<close>

record summary =
  steps :: "metric option"
  heart_rate :: "metric option"
  sleep :: "metric option"

text \<open>
  A JavaScript object as the list of its own enumerable properties, in enumeration
  order; \<^verbatim>\<open>Object.keys\<close> lists the property names. The scorer never reads the values of
  \<^verbatim>\<open>flagged_markers\<close>, so their type is left open.
\<close>

type_synonym 'v object = "(string \<times> 'v) list"

definition Object_keys :: "'v object \<Rightarrow> string list" where
  "Object_keys obj = map fst obj"

text \<open>
  A report, as far as the scorer reads it: \<^verbatim>\<open>flagged_markers\<close> is an object, or
  missing/\<^verbatim>\<open>null\<close> (\<open>None\<close>).
\<close>

record 'v report =
  flagged_markers :: "'v object option"

text \<open>The value returned by \<^verbatim>\<open>getHealthScore\<close>: \<^verbatim>\<open>{ score, factors }\<close>.\<close>

record assessment =
  score :: int
  factors :: "string list"

subsection \<open>JavaScript operators used by the scorer\<close>

text \<open>Truthiness of the left operand of \<^verbatim>\<open>&&\<close>: \<^verbatim>\<open>undefined\<close>, \<^verbatim>\<open>null\<close> and \<^verbatim>\<open>0\<close> are falsy.\<close>

fun truthy :: "jsval \<Rightarrow> bool" where
  "truthy Undefined = False"
| "truthy Null = False"
| "truthy (Num x) = (x \<noteq> 0)"

text \<open>
  \<^verbatim>\<open>v < c\<close> and \<^verbatim>\<open>v > c\<close> against a number: \<^verbatim>\<open>null\<close> converts to 0, \<^verbatim>\<open>undefined\<close>
  to NaN, which compares false with everything.
\<close>

fun js_lt :: "jsval \<Rightarrow> real \<Rightarrow> bool" where
  "js_lt Undefined c = False"
| "js_lt Null c = (0 < c)"
| "js_lt (Num x) c = (x < c)"

fun js_gt :: "jsval \<Rightarrow> real \<Rightarrow> bool" where
  "js_gt Undefined c = False"
| "js_gt Null c = (0 > c)"
| "js_gt (Num x) c = (x > c)"

text \<open>\<^verbatim>\<open>factors.push(x)\<close> appends at the end.\<close>

definition push :: "'a list \<Rightarrow> 'a \<Rightarrow> 'a list" where
  "push xs x = xs @ [x]"

text \<open>
  The template literal \<^verbatim>\<open>`${n} ...`\<close> on a non-negative integer \<open>n\<close>: its decimal
  digits, most significant first, no leading zero.
\<close>

definition digit_char :: "nat \<Rightarrow> char" where
  "digit_char d = ''0123456789'' ! (d mod 10)"

fun number_toString :: "nat \<Rightarrow> string" where
  "number_toString n =
     (if n < 10 then [digit_char n]
      else number_toString (n div 10) @ [digit_char (n mod 10)])"

declare number_toString.simps [simp del]

subsection \<open>\<^verbatim>\<open>getHealthScore\<close>\<close>

text \<open>
  \<^verbatim>\<open>summary.m && summary.m.latest && summary.m.latest > 0\<close>: the guard of each wearable
  check, and the disjuncts of \<^verbatim>\<open>hasWearableData\<close>.
\<close>

fun present :: "metric option \<Rightarrow> bool" where
  "present None = False"
| "present (Some m) = (truthy (latest m) \<and> js_gt (latest m) 0)"

text \<open>The three wearable checks (lines 61 to 78), each on the running \<^verbatim>\<open>score\<close> and \<^verbatim>\<open>factors\<close>.\<close>

definition check_steps :: "summary \<Rightarrow> assessment \<Rightarrow> assessment" where
  "check_steps s st =
     (case steps s of
        None \<Rightarrow> st
      | Some m \<Rightarrow>
          if truthy (latest m) \<and> js_gt (latest m) 0 then
            (if js_lt (latest m) 8000
             then st\<lparr>score := score st - 10, factors := push (factors st) ''Low step count''\<rparr>
             else st)
          else st)"

definition check_heart_rate :: "summary \<Rightarrow> assessment \<Rightarrow> assessment" where
  "check_heart_rate s st =
     (case heart_rate s of
        None \<Rightarrow> st
      | Some m \<Rightarrow>
          if truthy (latest m) \<and> js_gt (latest m) 0 then
            (if js_lt (latest m) 60 \<or> js_gt (latest m) 100
             then st\<lparr>score := score st - 15,
                     factors := push (factors st) ''Heart rate outside normal range''\<rparr>
             else st)
          else st)"

definition check_sleep :: "summary \<Rightarrow> assessment \<Rightarrow> assessment" where
  "check_sleep s st =
     (case sleep s of
        None \<Rightarrow> st
      | Some m \<Rightarrow>
          if truthy (latest m) \<and> js_gt (latest m) 0 then
            (if js_lt (latest m) 7
             then st\<lparr>score := score st - 15, factors := push (factors st) ''Insufficient sleep''\<rparr>
             else st)
          else st)"

text \<open>The body of \<^verbatim>\<open>recentReports.forEach\<close> (lines 81 to 86).\<close>

definition check_report :: "'v report \<Rightarrow> assessment \<Rightarrow> assessment" where
  "check_report r st =
     (case flagged_markers r of
        None \<Rightarrow> st
      | Some obj \<Rightarrow>
          if length (Object_keys obj) > 0
          then st\<lparr>score := score st - 20,
                  factors := push (factors st)
                    (number_toString (length (Object_keys obj)) @ '' abnormal lab markers'')\<rparr>
          else st)"

text \<open>
  The predicate of the report filter on line 254,
  \<^verbatim>\<open>r.flagged_markers && Object.keys(r.flagged_markers).length > 0\<close>.
\<close>

definition is_flagged :: "'v report \<Rightarrow> bool" where
  "is_flagged r =
     (case flagged_markers r of None \<Rightarrow> False | Some obj \<Rightarrow> length (Object_keys obj) > 0)"

text \<open>The two \<^verbatim>\<open>let\<close>s of lines 57 and 58: \<^verbatim>\<open>score = 100\<close>, \<^verbatim>\<open>factors = []\<close>.\<close>

definition initial :: assessment where
  "initial = \<lparr>score = 100, factors = []\<rparr>"

text \<open>
  The whole function: the three wearable checks in source order, the loop over the
  reports in list order, and \<^verbatim>\<open>Math.max(0, score)\<close> on return.
\<close>

definition getHealthScore :: "summary \<Rightarrow> 'v report list \<Rightarrow> assessment" where
  "getHealthScore s recentReports =
     (let st0 = initial;
          st1 = check_steps s st0;
          st2 = check_heart_rate s st1;
          st3 = check_sleep s st2;
          st4 = fold check_report recentReports st3
      in \<lparr>score = max 0 (score st4), factors = factors st4\<rparr>)"

text \<open>The rating shown under the score (lines 123 to 125).\<close>

definition rating :: "int \<Rightarrow> string" where
  "rating sc =
     (if sc \<ge> 80 then ''Excellent''
      else if sc \<ge> 60 then ''Good''
      else if sc \<ge> 40 then ''Fair''
      else ''Needs Attention'')"

text \<open>
  Two quantities the statements below speak about: the number of keys of a report's
  \<^verbatim>\<open>flagged_markers\<close> (0 when the property is missing), and the running score after
  the three wearable checks.
\<close>

definition flagged_count :: "'v report \<Rightarrow> nat" where
  "flagged_count r =
     (case flagged_markers r of None \<Rightarrow> 0 | Some obj \<Rightarrow> length (Object_keys obj))"

definition wearable_score :: "summary \<Rightarrow> int" where
  "wearable_score s = score (check_sleep s (check_heart_rate s (check_steps s initial)))"

section \<open>The marker extractor\<close>

text \<open>
  The extractor runs in the backend, behind \<^verbatim>\<open>POST /reports/debug-text\<close>; the frontend
  only declares the shape of what it returns (\<^verbatim>\<open>ManualEntry.tsx\<close>, lines 5 to 22).
  The two records below are those declarations; the algorithm after them follows
  section 4.1 of the specification.
\<close>

record HealthMarker =
  name :: string
  "value" :: real
  unit :: string
  normalRange :: string
  status :: string
  recommendation :: string

record ExtractionResult =
  extractedText :: string
  markers :: "HealthMarker list"
  textLength :: nat
  markersFound :: nat

text \<open>
  Modelled from the spec: the \<^verbatim>\<open>MarkerDefinition\<close> rows of the static table, which the
  backend holds. The alias sets are lists, since the algorithm orders them.
\<close>

record MarkerDefinition =
  canonical_name :: string
  aliases :: "string list"
  canonical_unit :: string
  unit_aliases :: "string list"
  low :: real
  high :: real
  recommendation_low :: string
  recommendation_high :: string

text \<open>
  Modelled from the spec: the only error of the extractor, raised for a \<^verbatim>\<open>null\<close> or
  missing \<^verbatim>\<open>raw_text\<close>.
\<close>

datatype error = InvalidInputError

text \<open>Modelled from the spec: character classes of step 1 and of the numeric literal.\<close>

definition is_space :: "char \<Rightarrow> bool" where
  "is_space c = (c \<in> set [CHR '' '', CHR 0x09, CHR 0x0A, CHR 0x0B, CHR 0x0C, CHR 0x0D])"

definition is_digit :: "char \<Rightarrow> bool" where
  "is_digit c = (c \<in> set ''0123456789'')"

text \<open>Modelled from the spec: upper-casing of the working copy (step 1).\<close>

definition to_upper :: "char \<Rightarrow> char" where
  "to_upper c =
     (case map_of (zip ''abcdefghijklmnopqrstuvwxyz'' ''ABCDEFGHIJKLMNOPQRSTUVWXYZ'') c of
        None \<Rightarrow> c
      | Some u \<Rightarrow> u)"

text \<open>
  Modelled from the spec: step 1, "collapse internal whitespace runs"; every run of
  whitespace becomes one space.
\<close>

fun collapse :: "string \<Rightarrow> string" where
  "collapse [] = []"
| "collapse [c] = [if is_space c then CHR '' '' else c]"
| "collapse (c # d # cs) =
     (if is_space c
      then (if is_space d then collapse (d # cs) else CHR '' '' # collapse (d # cs))
      else c # collapse (d # cs))"

text \<open>Modelled from the spec: the offset of the first element satisfying a test.\<close>

fun find_first :: "('a \<Rightarrow> bool) \<Rightarrow> 'a list \<Rightarrow> nat option" where
  "find_first P [] = None"
| "find_first P (x # xs) = (if P x then Some 0 else map_option Suc (find_first P xs))"

text \<open>
  Modelled from the spec: the numeric literal of step 2, an unsigned integer or decimal.
  \<open>parse_number\<close> reads the literal at the head of a string and returns its value and
  its length.
\<close>

definition digit_val :: "char \<Rightarrow> nat" where
  "digit_val c = (case find_first (\<lambda>x. x = c) ''0123456789'' of None \<Rightarrow> 0 | Some i \<Rightarrow> i)"

definition parse_digits :: "string \<Rightarrow> nat" where
  "parse_digits ds = foldl (\<lambda>n c. 10 * n + digit_val c) 0 ds"

definition parse_number :: "string \<Rightarrow> real \<times> nat" where
  "parse_number s =
     (let ip = takeWhile is_digit s in
      case dropWhile is_digit s of
        c # r \<Rightarrow>
          (let fp = takeWhile is_digit r in
           if c = CHR ''.'' \<and> fp \<noteq> []
           then (real (parse_digits ip) + real (parse_digits fp) / 10 ^ length fp,
                 length ip + 1 + length fp)
           else (real (parse_digits ip), length ip))
      | [] \<Rightarrow> (real (parse_digits ip), length ip))"

text \<open>
  Modelled from the spec: one successful match of step 2, with the span of text it
  consumes, the definition it matched, the parsed value and the unit.
\<close>

record raw_match =
  m_start :: nat
  m_end :: nat
  m_def :: MarkerDefinition
  m_value :: real
  m_unit :: string

text \<open>Modelled from the spec: the lookahead window of step 2, "the next ~80 characters".\<close>

definition lookahead_window :: nat where
  "lookahead_window = 80"

text \<open>
  Modelled from the spec: step 2 at one offset \<open>i\<close> of the text, for one alias \<open>a\<close> of
  the definition \<open>d\<close>. The alias is compared with the upper-cased working copy; the
  number and the unit are read from the copy that kept its case. The first digit within
  the window starts the literal, a comparison prefix before it is ignored, and a minus sign
  before it rejects the occurrence. The token after the number (one space may separate
  them) is the unit when it is one of \<open>unit_aliases\<close>; otherwise the unit is the canonical
  one.
\<close>

definition match_at ::
  "MarkerDefinition \<Rightarrow> string \<Rightarrow> string \<Rightarrow> string \<Rightarrow> nat \<Rightarrow> raw_match option" where
  "match_at d a orig work i =
     (let n = length a in
      if n = 0 \<or> take n (drop i work) \<noteq> map to_upper a then None
      else
        let after = drop (i + n) orig in
        case find_first is_digit (take lookahead_window after) of
          None \<Rightarrow> None
        | Some j \<Rightarrow>
            if j > 0 \<and> after ! (j - 1) = CHR ''-'' then None
            else
              let (v, len) = parse_number (drop j after);
                  rest = drop (j + len) after;
                  sp = (case rest of c # r \<Rightarrow> if c = CHR '' '' then 1 else 0 | [] \<Rightarrow> 0);
                  tok = takeWhile (\<lambda>c. \<not> is_space c) (drop sp rest)
              in if tok \<in> set (unit_aliases d)
                 then Some \<lparr>m_start = i, m_end = i + n + j + len + sp + length tok,
                            m_def = d, m_value = v, m_unit = tok\<rparr>
                 else Some \<lparr>m_start = i, m_end = i + n + j + len,
                            m_def = d, m_value = v, m_unit = canonical_unit d\<rparr>)"

text \<open>
  Modelled from the spec: step 3. A span of text is consumed by at most one match: a
  candidate that overlaps a match already made is dropped.
\<close>

definition overlaps :: "raw_match \<Rightarrow> raw_match \<Rightarrow> bool" where
  "overlaps m m' = (m_start m < m_end m' \<and> m_start m' < m_end m)"

definition scan_step ::
  "MarkerDefinition \<Rightarrow> string \<Rightarrow> string \<Rightarrow> string \<Rightarrow> nat \<Rightarrow> raw_match list \<Rightarrow> raw_match list"
  where
  "scan_step d a orig work i acc =
     (case match_at d a orig work i of
        None \<Rightarrow> acc
      | Some m \<Rightarrow> if list_ex (overlaps m) acc then acc else acc @ [m])"

text \<open>Modelled from the spec: the scan of the whole text for one alias, left to right.\<close>

definition scan_alias ::
  "string \<Rightarrow> string \<Rightarrow> string \<times> MarkerDefinition \<Rightarrow> raw_match list \<Rightarrow> raw_match list" where
  "scan_alias orig work ad acc =
     fold (scan_step (snd ad) (fst ad) orig work) [0..<length work] acc"

text \<open>Modelled from the spec: step 3, all aliases of the table, longest first.\<close>

definition candidates :: "MarkerDefinition list \<Rightarrow> (string \<times> MarkerDefinition) list" where
  "candidates table =
     sort_key (\<lambda>ad. - int (length (fst ad)))
       (concat (map (\<lambda>d. map (\<lambda>a. (a, d)) (aliases d)) table))"

text \<open>Modelled from the spec: step 4, the status of a value against a definition.\<close>

definition classify :: "MarkerDefinition \<Rightarrow> real \<Rightarrow> string" where
  "classify d v = (if v < low d then ''low'' else if v > high d then ''high'' else ''normal'')"

text \<open>Modelled from the spec: step 4, the recommendation attached to a status.\<close>

definition recommendation_for :: "MarkerDefinition \<Rightarrow> string \<Rightarrow> string" where
  "recommendation_for d st =
     (if st = ''low'' then recommendation_low d
      else if st = ''high'' then recommendation_high d
      else '''')"

text \<open>
  Modelled from the spec: the marker record of a match. How the range \<open>[low, high]\<close> is
  rendered as a string is not specified; the renderer is a parameter.
\<close>

definition to_marker :: "(real \<Rightarrow> real \<Rightarrow> string) \<Rightarrow> raw_match \<Rightarrow> HealthMarker" where
  "to_marker render m =
     (let d = m_def m; st = classify d (m_value m) in
      \<lparr>name = canonical_name d, value = m_value m, unit = m_unit m,
       normalRange = render (low d) (high d), status = st,
       recommendation = recommendation_for d st\<rparr>)"

text \<open>
  Modelled from the spec: steps 1, 2, 3 and 6 together. The matches of all aliases,
  in the order of the start of their spans.
\<close>

definition find_matches :: "MarkerDefinition list \<Rightarrow> string \<Rightarrow> raw_match list" where
  "find_matches table raw_text =
     (let orig = collapse raw_text; work = map to_upper orig
      in sort_key m_start (fold (scan_alias orig work) (candidates table) []))"

text \<open>
  Modelled from the spec: \<^verbatim>\<open>extract(raw_text)\<close>, over a given table. \<open>None\<close> is the
  \<^verbatim>\<open>null\<close> argument. The result has the fields the frontend declares.
\<close>

definition extract_markers ::
  "(real \<Rightarrow> real \<Rightarrow> string) \<Rightarrow> MarkerDefinition list \<Rightarrow> string option
     \<Rightarrow> error + ExtractionResult" where
  "extract_markers render table raw_text =
     (case raw_text of
        None \<Rightarrow> Inl InvalidInputError
      | Some t \<Rightarrow>
          (let ms = map (to_marker render) (find_matches table t)
           in Inr \<lparr>extractedText = t, markers = ms, textLength = length t,
                   markersFound = length ms\<rparr>))"

text \<open>
  Modelled from the spec: a text contains a recognizable marker when step 2 succeeds
  somewhere, for some alias of the table.
\<close>

definition recognizable :: "MarkerDefinition list \<Rightarrow> string \<Rightarrow> bool" where
  "recognizable table raw_text =
     (let orig = collapse raw_text; work = map to_upper orig
      in list_ex (\<lambda>ad. list_ex (\<lambda>i. match_at (snd ad) (fst ad) orig work i \<noteq> None)
                                [0..<length work])
                 (candidates table))"

text \<open>
  Modelled from the spec: the \<^verbatim>\<open>FERRITIN\<close> definition of the scenarios of section 8
  (bounds 38 and 380, unit ng/mL, aliases FERRITIN and SERUM FERRITIN). The scenarios
  do not give the recommendation texts.
\<close>

definition ferritin :: MarkerDefinition where
  "ferritin =
     \<lparr>canonical_name = ''FERRITIN'', aliases = [''FERRITIN'', ''SERUM FERRITIN''],
      canonical_unit = ''ng/mL'', unit_aliases = [''ng/mL'', ''ng/ml'', ''NG/ML''],
      low = 38, high = 380,
      recommendation_low = ''Increase iron intake'',
      recommendation_high = ''Discuss iron overload with a clinician''\<rparr>"

section \<open>Properties of the scorer\<close>

subsection \<open>The loop over the reports\<close>

lemma is_flagged_count: "is_flagged r \<longleftrightarrow> 0 < flagged_count r"
  by (simp add: is_flagged_def flagged_count_def split: option.splits)

lemma check_report_cases:
  "check_report r st =
     (if is_flagged r
      then st\<lparr>score := score st - 20,
              factors := factors st
                @ [number_toString (flagged_count r) @ '' abnormal lab markers'']\<rparr>
      else st)"
  by (simp add: check_report_def is_flagged_def flagged_count_def push_def
      split: option.splits)

lemma fold_check_report_score:
  "score (fold check_report rs st) = score st - 20 * int (length (filter is_flagged rs))"
  by (induction rs arbitrary: st) (simp_all add: check_report_cases)

lemma fold_check_report_factors:
  "factors (fold check_report rs st) =
     factors st @ map (\<lambda>r. number_toString (flagged_count r) @ '' abnormal lab markers'')
                      (filter is_flagged rs)"
  by (induction rs arbitrary: st) (simp_all add: check_report_cases)

subsection \<open>The wearable checks\<close>

lemma check_steps_score:
  "score (check_steps s st) = score st \<or> score (check_steps s st) = score st - 10"
  by (simp add: check_steps_def split: option.splits)

lemma check_heart_rate_score:
  "score (check_heart_rate s st) = score st \<or> score (check_heart_rate s st) = score st - 15"
  by (simp add: check_heart_rate_def split: option.splits)

lemma check_sleep_score:
  "score (check_sleep s st) = score st \<or> score (check_sleep s st) = score st - 15"
  by (simp add: check_sleep_def split: option.splits)

text \<open>Each check acts on the running state as it acts on the initial one, shifted.\<close>

lemma check_steps_shift:
  "check_steps s st = \<lparr>score = score st + (score (check_steps s initial) - 100),
                        factors = factors st @ factors (check_steps s initial)\<rparr>"
  by (simp add: check_steps_def initial_def push_def split: option.splits)

lemma check_heart_rate_shift:
  "check_heart_rate s st =
     \<lparr>score = score st + (score (check_heart_rate s initial) - 100),
      factors = factors st @ factors (check_heart_rate s initial)\<rparr>"
  by (simp add: check_heart_rate_def initial_def push_def split: option.splits)

lemma check_sleep_shift:
  "check_sleep s st = \<lparr>score = score st + (score (check_sleep s initial) - 100),
                        factors = factors st @ factors (check_sleep s initial)\<rparr>"
  by (simp add: check_sleep_def initial_def push_def split: option.splits)

lemma check_factors_cases:
  "factors (check_steps s initial) \<in> {[], [''Low step count'']}"
  "factors (check_heart_rate s initial) \<in> {[], [''Heart rate outside normal range'']}"
  "factors (check_sleep s initial) \<in> {[], [''Insufficient sleep'']}"
  by (simp_all add: check_steps_def check_heart_rate_def check_sleep_def initial_def push_def
      split: option.splits)

text \<open>Each check reads its own metric only.\<close>

lemma check_steps_upd [simp]:
  "check_steps (s\<lparr>heart_rate := m\<rparr>) = check_steps s"
  "check_steps (s\<lparr>sleep := m\<rparr>) = check_steps s"
  by (simp_all add: check_steps_def fun_eq_iff)

lemma check_heart_rate_upd [simp]:
  "check_heart_rate (s\<lparr>steps := m\<rparr>) = check_heart_rate s"
  "check_heart_rate (s\<lparr>sleep := m\<rparr>) = check_heart_rate s"
  by (simp_all add: check_heart_rate_def fun_eq_iff)

lemma check_sleep_upd [simp]:
  "check_sleep (s\<lparr>steps := m\<rparr>) = check_sleep s"
  "check_sleep (s\<lparr>heart_rate := m\<rparr>) = check_sleep s"
  by (simp_all add: check_sleep_def fun_eq_iff)

lemma check_steps_absent: "\<not> present (steps s) \<Longrightarrow> check_steps s st = st"
  by (cases "steps s") (auto simp: check_steps_def)

lemma check_heart_rate_absent: "\<not> present (heart_rate s) \<Longrightarrow> check_heart_rate s st = st"
  by (cases "heart_rate s") (auto simp: check_heart_rate_def)

lemma check_sleep_absent: "\<not> present (sleep s) \<Longrightarrow> check_sleep s st = st"
  by (cases "sleep s") (auto simp: check_sleep_def)

lemma absent_latest:
  "latest m \<in> {Num 0, Null, Undefined} \<Longrightarrow> \<not> (truthy (latest m) \<and> js_gt (latest m) 0)"
  by auto

subsection \<open>Closed forms of the result\<close>

lemma getHealthScore_score:
  "score (getHealthScore s rs) =
     max 0 (wearable_score s - 20 * int (length (filter is_flagged rs)))"
  by (simp add: getHealthScore_def Let_def fold_check_report_score wearable_score_def)

lemma getHealthScore_factors:
  "factors (getHealthScore s rs) =
     factors (check_steps s initial) @ factors (check_heart_rate s initial)
     @ factors (check_sleep s initial)
     @ map (\<lambda>r. number_toString (flagged_count r) @ '' abnormal lab markers'')
           (filter is_flagged rs)"
proof -
  have "factors (check_sleep s (check_heart_rate s (check_steps s initial))) =
     factors (check_steps s initial) @ factors (check_heart_rate s initial)
     @ factors (check_sleep s initial)"
    by (subst check_sleep_shift, subst check_heart_rate_shift) simp
  then show ?thesis
    by (simp add: getHealthScore_def Let_def fold_check_report_factors)
qed

lemma getHealthScore_cong:
  "check_steps s = check_steps s' \<Longrightarrow> check_heart_rate s = check_heart_rate s' \<Longrightarrow>
   check_sleep s = check_sleep s' \<Longrightarrow> getHealthScore s rs = getHealthScore s' rs"
  by (simp add: getHealthScore_def)

lemma wearable_score_split:
  "wearable_score s =
     score (check_steps s initial) + score (check_heart_rate s initial)
     + score (check_sleep s initial) - 200"
  unfolding wearable_score_def
  by (subst check_sleep_shift, subst check_heart_rate_shift) simp

lemma wearable_score_bounds: "60 \<le> wearable_score s \<and> wearable_score s \<le> 100"
  using check_steps_score[of s initial] check_heart_rate_score[of s initial]
    check_sleep_score[of s initial]
  by (auto simp: wearable_score_split initial_def)

lemma wearable_score_steps_absent:
  "\<not> present (steps s) \<Longrightarrow> wearable_score (s\<lparr>steps := m\<rparr>) \<le> wearable_score s"
  using check_steps_score[of "s\<lparr>steps := m\<rparr>" initial]
  by (auto simp: wearable_score_split check_steps_absent initial_def)

lemma wearable_score_heart_rate_absent:
  "\<not> present (heart_rate s) \<Longrightarrow> wearable_score (s\<lparr>heart_rate := m\<rparr>) \<le> wearable_score s"
  using check_heart_rate_score[of "s\<lparr>heart_rate := m\<rparr>" initial]
  by (auto simp: wearable_score_split check_heart_rate_absent initial_def)

lemma wearable_score_sleep_absent:
  "\<not> present (sleep s) \<Longrightarrow> wearable_score (s\<lparr>sleep := m\<rparr>) \<le> wearable_score s"
  using check_sleep_score[of "s\<lparr>sleep := m\<rparr>" initial]
  by (auto simp: wearable_score_split check_sleep_absent initial_def)

text \<open>A report factor ends in \<open>s\<close>; none of the three wearable factors does.\<close>

lemma report_factor_neq:
  "x @ '' abnormal lab markers'' \<noteq> ''Low step count''"
  "x @ '' abnormal lab markers'' \<noteq> ''Heart rate outside normal range''"
  "x @ '' abnormal lab markers'' \<noteq> ''Insufficient sleep''"
  by (auto dest: arg_cong[where f = last])

subsection \<open>The claims about the scorer\<close>

text \<open>
  C1. With steps 5000, heart rate 72, sleep 8 and one report whose
  \<^verbatim>\<open>flagged_markers\<close> holds exactly one marker (whatever its name \<open>k\<close> and its content
  \<open>v\<close>, a high reading in the scenario), the scorer returns score 70 and the factors
  "Low step count", "1 abnormal lab markers" in that order; the rating of 70 is Good.
\<close>

theorem scenario_full_wearable_one_abnormal_report:
  "getHealthScore
     \<lparr>steps = Some \<lparr>latest = Num 5000, average = a1\<rparr>,
      heart_rate = Some \<lparr>latest = Num 72, average = a2\<rparr>,
      sleep = Some \<lparr>latest = Num 8, average = a3\<rparr>\<rparr>
     [\<lparr>flagged_markers = Some [(k, v)]\<rparr>]
     = \<lparr>score = 70, factors = [''Low step count'', ''1 abnormal lab markers'']\<rparr>
   \<and> rating (score (getHealthScore
        \<lparr>steps = Some \<lparr>latest = Num 5000, average = a1\<rparr>,
         heart_rate = Some \<lparr>latest = Num 72, average = a2\<rparr>,
         sleep = Some \<lparr>latest = Num 8, average = a3\<rparr>\<rparr>
        [\<lparr>flagged_markers = Some [(k, v)]\<rparr>])) = ''Good''"
  by (simp add: getHealthScore_def initial_def check_steps_def check_heart_rate_def
      check_sleep_def check_report_def Object_keys_def push_def number_toString.simps
      digit_char_def rating_def)

text \<open>
  C2. The rating is a function of the score with four disjoint bands that cover all
  integers: Excellent exactly from 80 up, Good exactly on 60 to 79, Fair exactly on 40 to
  59, Needs Attention exactly below 40.
\<close>

theorem rating_thresholds:
  "(rating sc = ''Excellent'' \<longleftrightarrow> sc \<ge> 80)
   \<and> (rating sc = ''Good'' \<longleftrightarrow> 60 \<le> sc \<and> sc < 80)
   \<and> (rating sc = ''Fair'' \<longleftrightarrow> 40 \<le> sc \<and> sc < 60)
   \<and> (rating sc = ''Needs Attention'' \<longleftrightarrow> sc < 40)"
  by (simp add: rating_def)

text \<open>
  C3. The returned score always lies between 0 and 100. Appending a report to the
  list never increases it, and neither does replacing a metric that the scorer takes as
  absent by any other value of that metric (in particular by a reading that triggers its
  deduction).
\<close>

theorem score_range_and_monotone:
  "0 \<le> score (getHealthScore s rs) \<and> score (getHealthScore s rs) \<le> 100
   \<and> score (getHealthScore s (rs @ [r])) \<le> score (getHealthScore s rs)
   \<and> (\<not> present (steps s) \<longrightarrow>
        score (getHealthScore (s\<lparr>steps := m\<rparr>) rs) \<le> score (getHealthScore s rs))
   \<and> (\<not> present (heart_rate s) \<longrightarrow>
        score (getHealthScore (s\<lparr>heart_rate := m\<rparr>) rs) \<le> score (getHealthScore s rs))
   \<and> (\<not> present (sleep s) \<longrightarrow>
        score (getHealthScore (s\<lparr>sleep := m\<rparr>) rs) \<le> score (getHealthScore s rs))"
proof -
  have range: "0 \<le> score (getHealthScore s rs) \<and> score (getHealthScore s rs) \<le> 100"
    using wearable_score_bounds[of s] by (simp add: getHealthScore_score)
  have app: "score (getHealthScore s (rs @ [r])) \<le> score (getHealthScore s rs)"
    by (simp add: getHealthScore_score)
  have st: "score (getHealthScore (s\<lparr>steps := m\<rparr>) rs) \<le> score (getHealthScore s rs)"
    if "\<not> present (steps s)"
    using wearable_score_steps_absent[OF that, of m] by (simp add: getHealthScore_score)
  have hr: "score (getHealthScore (s\<lparr>heart_rate := m\<rparr>) rs) \<le> score (getHealthScore s rs)"
    if "\<not> present (heart_rate s)"
    using wearable_score_heart_rate_absent[OF that, of m] by (simp add: getHealthScore_score)
  have sl: "score (getHealthScore (s\<lparr>sleep := m\<rparr>) rs) \<le> score (getHealthScore s rs)"
    if "\<not> present (sleep s)"
    using wearable_score_sleep_absent[OF that, of m] by (simp add: getHealthScore_score)
  from range app st hr sl show ?thesis by blast
qed

text \<open>
  The theorem at the empty summary, one flagged report and a metric reading of 5 (too
  few steps, too slow a heart rate, too little sleep): each replacement lowers the score
  from 80.
\<close>

theorem score_range_and_monotone_witness:
  "\<not> present (steps \<lparr>steps = None, heart_rate = None, sleep = None\<rparr>)
   \<and> \<not> present (heart_rate \<lparr>steps = None, heart_rate = None, sleep = None\<rparr>)
   \<and> \<not> present (sleep \<lparr>steps = None, heart_rate = None, sleep = None\<rparr>)
   \<and> score (getHealthScore \<lparr>steps = None, heart_rate = None, sleep = None\<rparr>
        [\<lparr>flagged_markers = Some [(''FERRITIN'', ''low'')]\<rparr>]) = 80
   \<and> score (getHealthScore
        (\<lparr>steps = None, heart_rate = None, sleep = None\<rparr>
           \<lparr>steps := Some \<lparr>latest = Num 5, average = Num 5\<rparr>\<rparr>)
        [\<lparr>flagged_markers = Some [(''FERRITIN'', ''low'')]\<rparr>]) \<le> 80
   \<and> score (getHealthScore
        (\<lparr>steps = None, heart_rate = None, sleep = None\<rparr>
           \<lparr>heart_rate := Some \<lparr>latest = Num 5, average = Num 5\<rparr>\<rparr>)
        [\<lparr>flagged_markers = Some [(''FERRITIN'', ''low'')]\<rparr>]) \<le> 80
   \<and> score (getHealthScore
        (\<lparr>steps = None, heart_rate = None, sleep = None\<rparr>
           \<lparr>sleep := Some \<lparr>latest = Num 5, average = Num 5\<rparr>\<rparr>)
        [\<lparr>flagged_markers = Some [(''FERRITIN'', ''low'')]\<rparr>]) \<le> 80"
proof -
  have e: "score (getHealthScore \<lparr>steps = None, heart_rate = None, sleep = None\<rparr>
        [\<lparr>flagged_markers = Some [(''FERRITIN'', ''low'')]\<rparr>]) = 80"
    by (simp add: getHealthScore_def initial_def check_steps_def check_heart_rate_def
        check_sleep_def check_report_def Object_keys_def)
  show ?thesis
    using score_range_and_monotone
      [of "\<lparr>steps = None, heart_rate = None, sleep = None\<rparr>"
          "[\<lparr>flagged_markers = Some [(''FERRITIN'', ''low'')]\<rparr>]"
          "\<lparr>flagged_markers = None\<rparr>"
          "Some \<lparr>latest = Num 5, average = Num 5\<rparr>"]
    by (simp add: e)
qed

text \<open>
  C4. A metric whose \<^verbatim>\<open>latest\<close> is 0, \<^verbatim>\<open>null\<close> or missing is treated as absent, for each
  of the three metrics: its check leaves the running score and factors as they are, the
  result is the one for a summary without that metric, and the factor of that metric is
  not among the returned factors.
\<close>

theorem zero_null_missing_is_absent:
  "latest m \<in> {Num 0, Null, Undefined} \<Longrightarrow>
     check_steps (s\<lparr>steps := Some m\<rparr>) st = st
   \<and> check_heart_rate (s\<lparr>heart_rate := Some m\<rparr>) st = st
   \<and> check_sleep (s\<lparr>sleep := Some m\<rparr>) st = st
   \<and> getHealthScore (s\<lparr>steps := Some m\<rparr>) rs = getHealthScore (s\<lparr>steps := None\<rparr>) rs
   \<and> getHealthScore (s\<lparr>heart_rate := Some m\<rparr>) rs
       = getHealthScore (s\<lparr>heart_rate := None\<rparr>) rs
   \<and> getHealthScore (s\<lparr>sleep := Some m\<rparr>) rs = getHealthScore (s\<lparr>sleep := None\<rparr>) rs
   \<and> ''Low step count'' \<notin> set (factors (getHealthScore (s\<lparr>steps := Some m\<rparr>) rs))
   \<and> ''Heart rate outside normal range''
        \<notin> set (factors (getHealthScore (s\<lparr>heart_rate := Some m\<rparr>) rs))
   \<and> ''Insufficient sleep'' \<notin> set (factors (getHealthScore (s\<lparr>sleep := Some m\<rparr>) rs))"
proof -
  assume a: "latest m \<in> {Num 0, Null, Undefined}"
  have n: "\<not> (truthy (latest m) \<and> js_gt (latest m) 0)"
    using a by (rule absent_latest)
  have st: "check_steps (s\<lparr>steps := Some m\<rparr>) st = st" for st
    using n by (auto simp: check_steps_def)
  have hr: "check_heart_rate (s\<lparr>heart_rate := Some m\<rparr>) st = st" for st
    using n by (auto simp: check_heart_rate_def)
  have sl: "check_sleep (s\<lparr>sleep := Some m\<rparr>) st = st" for st
    using n by (auto simp: check_sleep_def)
  have st0: "check_steps (s\<lparr>steps := None\<rparr>) st = st" for st
    by (simp add: check_steps_def)
  have hr0: "check_heart_rate (s\<lparr>heart_rate := None\<rparr>) st = st" for st
    by (simp add: check_heart_rate_def)
  have sl0: "check_sleep (s\<lparr>sleep := None\<rparr>) st = st" for st
    by (simp add: check_sleep_def)
  have g1: "getHealthScore (s\<lparr>steps := Some m\<rparr>) rs = getHealthScore (s\<lparr>steps := None\<rparr>) rs"
    by (rule getHealthScore_cong) (simp_all add: fun_eq_iff st st0)
  have g2: "getHealthScore (s\<lparr>heart_rate := Some m\<rparr>) rs
      = getHealthScore (s\<lparr>heart_rate := None\<rparr>) rs"
    by (rule getHealthScore_cong) (simp_all add: fun_eq_iff hr hr0)
  have g3: "getHealthScore (s\<lparr>sleep := Some m\<rparr>) rs = getHealthScore (s\<lparr>sleep := None\<rparr>) rs"
    by (rule getHealthScore_cong) (simp_all add: fun_eq_iff sl sl0)
  have f1: "''Low step count'' \<notin> set (factors (getHealthScore (s\<lparr>steps := Some m\<rparr>) rs))"
    using check_factors_cases(2)[of s] check_factors_cases(3)[of s]
    by (auto simp: getHealthScore_factors st initial_def report_factor_neq[symmetric])
  have f2: "''Heart rate outside normal range''
        \<notin> set (factors (getHealthScore (s\<lparr>heart_rate := Some m\<rparr>) rs))"
    using check_factors_cases(1)[of s] check_factors_cases(3)[of s]
    by (auto simp: getHealthScore_factors hr initial_def report_factor_neq[symmetric])
  have f3: "''Insufficient sleep'' \<notin> set (factors (getHealthScore (s\<lparr>sleep := Some m\<rparr>) rs))"
    using check_factors_cases(1)[of s] check_factors_cases(2)[of s]
    by (auto simp: getHealthScore_factors sl initial_def report_factor_neq[symmetric])
  from st hr sl g1 g2 g3 f1 f2 f3 show ?thesis by blast
qed

text \<open>
  The theorem at a reading of 0, on the empty summary with no reports: a heart rate of 0
  and a sleep of 0 deduct nothing, although 0 is below 60 and below 7.
\<close>

theorem zero_null_missing_is_absent_witness:
  "latest \<lparr>latest = Num 0, average = Num 0\<rparr> \<in> {Num 0, Null, Undefined}
   \<and> js_lt (Num 0) 60 \<and> js_lt (Num 0) 7
   \<and> getHealthScore
        (\<lparr>steps = None, heart_rate = None, sleep = None\<rparr>
           \<lparr>heart_rate := Some \<lparr>latest = Num 0, average = Num 0\<rparr>\<rparr>)
        ([] :: string report list)
       = \<lparr>score = 100, factors = []\<rparr>
   \<and> getHealthScore
        (\<lparr>steps = None, heart_rate = None, sleep = None\<rparr>
           \<lparr>sleep := Some \<lparr>latest = Num 0, average = Num 0\<rparr>\<rparr>)
        ([] :: string report list)
       = \<lparr>score = 100, factors = []\<rparr>"
proof -
  have h: "latest \<lparr>latest = Num 0, average = Num 0\<rparr> \<in> {Num 0, Null, Undefined}"
    by simp
  have e: "getHealthScore \<lparr>steps = None, heart_rate = None, sleep = None\<rparr>
       ([] :: string report list) = \<lparr>score = 100, factors = []\<rparr>"
    by (simp add: getHealthScore_def initial_def check_steps_def check_heart_rate_def
        check_sleep_def)
  show ?thesis
    using zero_null_missing_is_absent
      [OF h, of "\<lparr>steps = None, heart_rate = None, sleep = None\<rparr>" initial
         "[] :: string report list"]
    by (simp add: e)
qed

text \<open>
  C5. Every report with at least one flagged marker takes 20 off the running score,
  once, whatever the number of its flagged markers, and adds one factor
  "\<open>n\<close> abnormal lab markers", \<open>n\<close> being the number of its flagged markers; a report
  without flagged markers takes nothing and adds nothing. So the result for a report
  list is the result for no reports, less 20 for each flagged report (the returned
  score is the running score floored at 0), with one factor for each flagged report
  appended in list order.
\<close>

theorem report_deduction_per_result:
  "check_report r st =
     (if is_flagged r
      then st\<lparr>score := score st - 20,
              factors := factors st
                @ [number_toString (flagged_count r) @ '' abnormal lab markers'']\<rparr>
      else st)
   \<and> is_flagged r = (0 < flagged_count r)
   \<and> score (getHealthScore s rs)
     = max 0 (score (getHealthScore s ([] :: 'v report list))
              - 20 * int (length (filter is_flagged rs)))
   \<and> factors (getHealthScore s rs)
     = factors (getHealthScore s ([] :: 'v report list))
       @ map (\<lambda>r. number_toString (flagged_count r) @ '' abnormal lab markers'')
             (filter is_flagged rs)"
  for r :: "'v report" and rs :: "'v report list"
  using wearable_score_bounds[of s] check_report_cases[of r st] is_flagged_count[of r]
  by (simp add: getHealthScore_score getHealthScore_factors)

text \<open>
  C9. The factors come in a fixed order: what the step check adds (nothing, or
  "Low step count"), then what the heart-rate check adds, then what the sleep check
  adds, then one factor for each flagged report, in the order of the report list.
\<close>

theorem factors_order:
  "factors (getHealthScore s rs) =
     factors (check_steps s initial) @ factors (check_heart_rate s initial)
     @ factors (check_sleep s initial)
     @ map (\<lambda>r. number_toString (flagged_count r) @ '' abnormal lab markers'')
           (filter is_flagged rs)
   \<and> factors (check_steps s initial) \<in> {[], [''Low step count'']}
   \<and> factors (check_heart_rate s initial) \<in> {[], [''Heart rate outside normal range'']}
   \<and> factors (check_sleep s initial) \<in> {[], [''Insufficient sleep'']}"
  using getHealthScore_factors[of s rs] check_factors_cases[of s]
  by simp

text \<open>
  C10. With no reports the score is at least 60, so the rating is Excellent or Good
  and neither Fair nor Needs Attention.
\<close>

theorem wearable_only_rating:
  "60 \<le> score (getHealthScore s ([] :: 'v report list))
   \<and> rating (score (getHealthScore s ([] :: 'v report list))) \<in> {''Excellent'', ''Good''}
   \<and> rating (score (getHealthScore s ([] :: 'v report list)))
        \<notin> {''Fair'', ''Needs Attention''}"
  using wearable_score_bounds[of s]
  by (auto simp: getHealthScore_score rating_def)

text \<open>
  C6. On the empty summary \<^verbatim>\<open>{}\<close> and the empty report list the scorer returns
  score 100 and no factors, and the rating of that score is Excellent.
\<close>

theorem empty_inputs_score_100:
  "getHealthScore \<lparr>steps = None, heart_rate = None, sleep = None\<rparr> ([] :: 'v report list)
     = \<lparr>score = 100, factors = []\<rparr>
   \<and> rating (score (getHealthScore \<lparr>steps = None, heart_rate = None, sleep = None\<rparr>
        ([] :: 'v report list))) = ''Excellent''"
  by (simp add: getHealthScore_def initial_def check_steps_def check_heart_rate_def
      check_sleep_def rating_def)

section \<open>Properties of the extractor\<close>

subsection \<open>Folds\<close>

lemma fold_unchanged:
  "(\<And>x acc. x \<in> set xs \<Longrightarrow> f x acc = acc) \<Longrightarrow> fold f xs acc = acc"
  by (induction xs arbitrary: acc) simp_all

lemma fold_invariant:
  "P acc \<Longrightarrow> (\<And>x acc. x \<in> set xs \<Longrightarrow> P acc \<Longrightarrow> P (f x acc)) \<Longrightarrow> P (fold f xs acc)"
  by (induction xs arbitrary: acc) simp_all

subsection \<open>A text without digits has no match\<close>

lemma find_first_None: "find_first P xs = None \<longleftrightarrow> (\<forall>x \<in> set xs. \<not> P x)"
  by (induction xs) auto

lemma set_collapse: "set (collapse t) \<subseteq> insert CHR '' '' (set t)"
  by (induction t rule: collapse.induct) auto

lemma collapse_no_digit:
  assumes "\<not> list_ex is_digit t"
  shows "\<forall>c \<in> set (collapse t). \<not> is_digit c"
proof
  fix c assume "c \<in> set (collapse t)"
  with set_collapse[of t] have "c = CHR '' '' \<or> c \<in> set t" by auto
  moreover have "\<not> is_digit CHR '' ''" by (simp add: is_digit_def)
  ultimately show "\<not> is_digit c" using assms by (auto simp: list_ex_iff)
qed

lemma match_at_no_digit:
  assumes "\<forall>c \<in> set orig. \<not> is_digit c"
  shows "match_at d a orig work i = None"
proof -
  have "find_first is_digit (take lookahead_window (drop (i + length a) orig)) = None"
    using assms by (auto simp: find_first_None dest!: in_set_takeD in_set_dropD)
  then show ?thesis by (simp add: match_at_def Let_def)
qed

lemma no_digit_unrecognizable:
  "\<not> list_ex is_digit t \<Longrightarrow> \<not> recognizable table t"
  by (simp add: recognizable_def Let_def list_ex_iff match_at_no_digit[OF collapse_no_digit])

subsection \<open>The matches of a text\<close>

lemma find_matches_unrecognizable:
  assumes "\<not> recognizable table t"
  shows "find_matches table t = []"
proof -
  let ?orig = "collapse t" and ?work = "map to_upper (collapse t)"
  have none: "match_at (snd ad) (fst ad) ?orig ?work i = None"
    if "ad \<in> set (candidates table)" "i < length ?work" for ad i
    using assms that by (auto simp: recognizable_def Let_def list_ex_iff)
  have "scan_alias ?orig ?work ad acc = acc" if "ad \<in> set (candidates table)" for ad acc
    unfolding scan_alias_def
    by (rule fold_unchanged) (simp add: scan_step_def none[OF that])
  then have "fold (scan_alias ?orig ?work) (candidates table) [] = []"
    by (rule fold_unchanged)
  then show ?thesis by (simp add: find_matches_def Let_def)
qed

lemma match_at_def_eq: "match_at d a orig work i = Some m \<Longrightarrow> m_def m = d"
  by (auto simp: match_at_def Let_def split: option.splits if_splits prod.splits)

lemma find_matches_defs:
  assumes "m \<in> set (find_matches table t)"
  shows "m_def m \<in> set table"
proof -
  let ?orig = "collapse t" and ?work = "map to_upper (collapse t)"
  let ?P = "\<lambda>acc :: raw_match list. \<forall>m \<in> set acc. m_def m \<in> set table"
  have step: "?P (scan_alias ?orig ?work ad acc)"
    if ad: "ad \<in> set (candidates table)" and acc: "?P acc" for ad acc
    unfolding scan_alias_def
  proof (rule fold_invariant[where P = ?P, OF acc])
    fix i acc' assume "?P acc'"
    moreover have "snd ad \<in> set table" using ad by (auto simp: candidates_def)
    ultimately show "?P (scan_step (snd ad) (fst ad) ?orig ?work i acc')"
      by (auto simp: scan_step_def split: option.splits dest: match_at_def_eq)
  qed
  have "?P (fold (scan_alias ?orig ?work) (candidates table) [])"
    by (rule fold_invariant[where P = ?P]) (simp_all add: step)
  then show ?thesis using assms by (simp add: find_matches_def Let_def)
qed

subsection \<open>The marker of a match\<close>

lemma to_marker_status:
  assumes "low (m_def m) \<le> high (m_def m)"
  shows "(status (to_marker render m) = ''low'' \<longleftrightarrow> value (to_marker render m) < low (m_def m))
   \<and> (status (to_marker render m) = ''high'' \<longleftrightarrow> value (to_marker render m) > high (m_def m))
   \<and> (status (to_marker render m) = ''normal'' \<longleftrightarrow>
        low (m_def m) \<le> value (to_marker render m)
        \<and> value (to_marker render m) \<le> high (m_def m))"
  using assms by (auto simp: to_marker_def Let_def classify_def)

lemma to_marker_recommendation:
  "recommendation (to_marker render m) =
     (if status (to_marker render m) = ''low'' then recommendation_low (m_def m)
      else if status (to_marker render m) = ''high'' then recommendation_high (m_def m)
      else '''')"
  by (simp add: to_marker_def Let_def recommendation_for_def)

subsection \<open>The claims about the extractor\<close>

text \<open>
  C7. Over a table whose definitions have \<open>low \<le> high\<close> (the invariant of the data
  model), every marker the extractor returns was matched against a definition \<open>d\<close> of
  the table, and its status is low exactly when its value is below \<open>low d\<close>, high exactly
  when its value is above \<open>high d\<close>, normal exactly when the value lies within the bounds;
  its recommendation is \<open>recommendation_low d\<close> for low, \<open>recommendation_high d\<close> for
  high and the empty string for normal.
\<close>

theorem status_classification:
  assumes "\<forall>d \<in> set table. low d \<le> high d"
    and "extract_markers render table (Some t) = Inr r"
    and "mk \<in> set (markers r)"
  shows "\<exists>d \<in> set table. name mk = canonical_name d
     \<and> (status mk = ''low'' \<longleftrightarrow> value mk < low d)
     \<and> (status mk = ''high'' \<longleftrightarrow> value mk > high d)
     \<and> (status mk = ''normal'' \<longleftrightarrow> low d \<le> value mk \<and> value mk \<le> high d)
     \<and> recommendation mk =
         (if status mk = ''low'' then recommendation_low d
          else if status mk = ''high'' then recommendation_high d
          else '''')"
proof -
  from assms(2,3) obtain m where m: "m \<in> set (find_matches table t)"
    and mk: "mk = to_marker render m"
    by (auto simp: extract_markers_def Let_def)
  have d: "m_def m \<in> set table" using m by (rule find_matches_defs)
  with assms(1) have "low (m_def m) \<le> high (m_def m)" by simp
  from to_marker_status[OF this, of render] to_marker_recommendation[of render m]
  have "name mk = canonical_name (m_def m)
     \<and> (status mk = ''low'' \<longleftrightarrow> value mk < low (m_def m))
     \<and> (status mk = ''high'' \<longleftrightarrow> value mk > high (m_def m))
     \<and> (status mk = ''normal'' \<longleftrightarrow> low (m_def m) \<le> value mk \<and> value mk \<le> high (m_def m))
     \<and> recommendation mk =
         (if status mk = ''low'' then recommendation_low (m_def m)
          else if status mk = ''high'' then recommendation_high (m_def m)
          else '''')"
    unfolding mk by (simp add: to_marker_def Let_def)
  with d show ?thesis by blast
qed

text \<open>
  The theorem on the manual-entry scenario: the text "FERRITIN: 22 ng/mL (Low)", a line
  break, "Normal Range: 38-380 ng/mL" gives one marker, FERRITIN at 22 ng/mL, low, with
  the recommendation for low.
\<close>

theorem status_classification_witness:
  "low ferritin \<le> high ferritin
   \<and> extract_markers (\<lambda>l h. ''38-380'') [ferritin]
        (Some (''FERRITIN: 22 ng/mL (Low)'' @ [CHR 0x0A] @ ''Normal Range: 38-380 ng/mL''))
       = Inr \<lparr>extractedText =
                ''FERRITIN: 22 ng/mL (Low)'' @ [CHR 0x0A] @ ''Normal Range: 38-380 ng/mL'',
              markers = [\<lparr>name = ''FERRITIN'', value = 22, unit = ''ng/mL'',
                          normalRange = ''38-380'', status = ''low'',
                          recommendation = ''Increase iron intake''\<rparr>],
              textLength = 51, markersFound = 1\<rparr>
   \<and> (\<exists>d \<in> set [ferritin]. canonical_name d = ''FERRITIN'' \<and> (22 :: real) < low d
         \<and> recommendation_low d = ''Increase iron intake'')"
proof -
  let ?mk = "\<lparr>name = ''FERRITIN'', value = 22, unit = ''ng/mL'', normalRange = ''38-380'',
              status = ''low'', recommendation = ''Increase iron intake''\<rparr>"
  let ?t = "''FERRITIN: 22 ng/mL (Low)'' @ [CHR 0x0A] @ ''Normal Range: 38-380 ng/mL''"
  let ?r = "\<lparr>extractedText = ?t, markers = [?mk], textLength = 51, markersFound = 1\<rparr>"
  have h1: "\<forall>d \<in> set [ferritin]. low d \<le> high d"
    by (simp add: ferritin_def)
  have h2: "extract_markers (\<lambda>l h. ''38-380'') [ferritin] (Some ?t) = Inr ?r"
    by code_simp
  have h3: "?mk \<in> set (markers ?r)"
    by simp
  from status_classification[OF h1 h2 h3] h1 h2 show ?thesis
    by auto
qed

text \<open>
  C8. For every string the extractor returns a result, never the error; in every
  result \<^verbatim>\<open>markersFound\<close> is the length of \<^verbatim>\<open>markers\<close>; a text without a recognizable
  marker gives \<^verbatim>\<open>markers = []\<close> and \<^verbatim>\<open>markersFound = 0\<close>; and so does the text
  "The patient feels fine today.", whatever the table.
\<close>

theorem extract_never_fails:
  "(\<exists>r. extract_markers render table (Some t) = Inr r
        \<and> markersFound r = length (markers r)
        \<and> (\<not> recognizable table t \<longrightarrow> markers r = [] \<and> markersFound r = 0))
   \<and> extract_markers render table (Some ''The patient feels fine today.'')
       = Inr \<lparr>extractedText = ''The patient feels fine today.'', markers = [],
              textLength = 29, markersFound = 0\<rparr>"
proof -
  have "\<not> list_ex is_digit ''The patient feels fine today.''"
    by (simp add: is_digit_def)
  then have "find_matches table ''The patient feels fine today.'' = []"
    by (intro find_matches_unrecognizable no_digit_unrecognizable)
  then show ?thesis
    by (simp add: extract_markers_def Let_def find_matches_unrecognizable)
qed

text \<open>
  The theorem on a text that names the marker but gives no number, over the table of
  the scenarios.
\<close>

theorem extract_never_fails_witness:
  "\<not> recognizable [ferritin] ''Ferritin was not measured.''
   \<and> (\<exists>r. extract_markers (\<lambda>l h. ''38-380'') [ferritin] (Some ''Ferritin was not measured.'')
             = Inr r
           \<and> markersFound r = length (markers r) \<and> markers r = [] \<and> markersFound r = 0)"
proof -
  have h: "\<not> recognizable [ferritin] ''Ferritin was not measured.''"
    by code_simp
  from extract_never_fails[of "\<lambda>l h. ''38-380''" "[ferritin]" "''Ferritin was not measured.''"] h
  show ?thesis by blast
qed

end
